theory Spec2Isabelle
  imports Complex_Main "HOL-Library.Multiset"
begin

section \<open>Strings as Python sees them\<close>

text \<open>
  A Python string is modelled as a \<open>string\<close>, one \<open>char\<close> per code point. This covers
  the code points below 256 (Latin-1); text with other characters is outside the model.
  \<open>is_space\<close> is what \<open>str.strip\<close>, \<open>str.isspace\<close> and the regular-expression class
  \<open>\s\<close> accept there: tab, line feed, vertical tab, form feed, carriage return, the four
  separators 0x1C to 0x1F, the blank, next line (0x85) and the no-break space (0xA0). The
  decimal digits of the range, for \<open>\d\<close> and for \<open>int\<close>, are 0 to 9.
\<close>

definition is_space :: "char \<Rightarrow> bool" where
  "is_space c = (c \<in> set [CHR 0x09, CHR 0x0A, CHR 0x0B, CHR 0x0C, CHR 0x0D,
                            CHR 0x1C, CHR 0x1D, CHR 0x1E, CHR 0x1F, CHR '' '',
                            CHR 0x85, CHR 0xA0])"

definition is_digit :: "char \<Rightarrow> bool" where
  "is_digit c = (c \<in> set ''0123456789'')"

text \<open>
  \<open>str.lower\<close>: the capitals A to Z and, in the upper half of Latin-1, 0xC0 to 0xDE
  without the multiplication sign 0xD7, each 32 below its small letter.
\<close>

definition lower_char :: "char \<Rightarrow> char" where
  "lower_char c =
     (let n = of_char c :: nat
      in if (65 \<le> n \<and> n \<le> 90) \<or> (192 \<le> n \<and> n \<le> 222 \<and> n \<noteq> 215)
         then char_of (n + 32) else c)"

definition lower :: "string \<Rightarrow> string" where
  "lower s = map lower_char s"

text \<open>
  \<open>str.upper\<close> leaves Latin-1: the sharp s (0xDF) becomes \<open>SS\<close>, the micro sign (0xB5)
  and the y with diaeresis (0xFF) have their capitals at 924 and 376. So the result is
  given as a list of code points.
\<close>

definition upper_char :: "char \<Rightarrow> nat list" where
  "upper_char c =
     (let n = of_char c :: nat
      in if (97 \<le> n \<and> n \<le> 122) \<or> (224 \<le> n \<and> n \<le> 254 \<and> n \<noteq> 247) then [n - 32]
         else if n = 223 then [83, 83]
         else if n = 181 then [924]
         else if n = 255 then [376]
         else [n])"

definition upper :: "string \<Rightarrow> nat list" where
  "upper s = concat (map upper_char s)"

definition code_points :: "string \<Rightarrow> nat list" where
  "code_points s = map of_char s"

definition strip :: "string \<Rightarrow> string" where
  "strip s = rev (dropWhile is_space (rev (dropWhile is_space s)))"

text \<open>\<open>contains sub s\<close> is Python's \<open>sub in s\<close>.\<close>

fun contains :: "'a list \<Rightarrow> 'a list \<Rightarrow> bool" where
  "contains sub [] = (sub = [])"
| "contains sub (c # cs) = (take (length sub) (c # cs) = sub \<or> contains sub cs)"

section \<open>Regular expressions with Python's backtracking order\<close>

text \<open>
  The fragment of \<open>re\<close> that \<open>sanitize_error_message\<close> uses: character classes,
  sequence, alternation, a greedy optional part (for the bounded repeat \<open>{1,3}\<close>), a
  greedy star over a character class, and one capturing group. \<open>rmatch r s\<close> lists every
  way \<open>r\<close> matches a prefix of \<open>s\<close> as (matched text, text of the last group closed,
  rest of \<open>s\<close>), in the order in which a backtracking matcher tries them; the head of
  the list is the match Python reports at that position.
\<close>

datatype regex =
    Cls "char \<Rightarrow> bool"
  | Seq regex regex
  | Alt regex regex
  | Opt regex
  | StarCls "char \<Rightarrow> bool"
  | Grp regex

type_synonym rmatch_result = "string \<times> string option \<times> string"

fun rmatch :: "regex \<Rightarrow> string \<Rightarrow> rmatch_result list" where
  "rmatch (Cls p) s =
     (case s of [] \<Rightarrow> [] | c # cs \<Rightarrow> if p c then [([c], None, cs)] else [])"
| "rmatch (Seq a b) s =
     concat (map (\<lambda>(m1, g1, r1).
               map (\<lambda>(m2, g2, r2). (m1 @ m2, (case g2 of None \<Rightarrow> g1 | Some g \<Rightarrow> Some g), r2))
                   (rmatch b r1))
             (rmatch a s))"
| "rmatch (Alt a b) s = rmatch a s @ rmatch b s"
| "rmatch (Opt a) s = rmatch a s @ [([], None, s)]"
| "rmatch (StarCls p) s =
     map (\<lambda>n. (take n s, None, drop n s)) (rev [0 ..< Suc (length (takeWhile p s))])"
| "rmatch (Grp a) s = map (\<lambda>(m, g, r). (m, Some m, r)) (rmatch a s)"

text \<open>A literal, with or without \<open>re.IGNORECASE\<close>; the literal must not be empty.\<close>

fun lit :: "string \<Rightarrow> regex" where
  "lit [] = Opt (Cls (\<lambda>c. False))"
| "lit [c] = Cls (\<lambda>x. x = c)"
| "lit (c # cs) = Seq (Cls (\<lambda>x. x = c)) (lit cs)"

fun lit_ci :: "string \<Rightarrow> regex" where
  "lit_ci [] = Opt (Cls (\<lambda>c. False))"
| "lit_ci [c] = Cls (\<lambda>x. lower_char x = lower_char c)"
| "lit_ci (c # cs) = Seq (Cls (\<lambda>x. lower_char x = lower_char c)) (lit_ci cs)"

text \<open>
  \<open>re_sub r repl s\<close> is \<open>re.sub\<close>: scan \<open>s\<close> from the left, replace each leftmost
  match by \<open>repl\<close> applied to the matched text and the group, and go on after the match.
  The counter is the number of characters of the current match still to be skipped.
  None of the patterns below matches the empty string, so a position with an empty match
  is treated as a position without a match.
\<close>

fun re_sub_from :: "regex \<Rightarrow> (string \<Rightarrow> string option \<Rightarrow> string) \<Rightarrow> nat \<Rightarrow> string \<Rightarrow> string" where
  "re_sub_from r repl k [] = []"
| "re_sub_from r repl (Suc k) (c # cs) = re_sub_from r repl k cs"
| "re_sub_from r repl 0 (c # cs) =
     (case rmatch r (c # cs) of
        [] \<Rightarrow> c # re_sub_from r repl 0 cs
      | (m, g, rest) # _ \<Rightarrow>
          if m = [] then c # re_sub_from r repl 0 cs
          else repl m g @ re_sub_from r repl (length m - 1) cs)"

definition re_sub :: "regex \<Rightarrow> (string \<Rightarrow> string option \<Rightarrow> string) \<Rightarrow> string \<Rightarrow> string" where
  "re_sub r repl s = re_sub_from r repl 0 s"

section \<open>sanitize_error_message\<close>

text \<open>\<open>\d{1,3}\<close>: one to three digits, the longest first.\<close>

definition digits_1_3 :: regex where
  "digits_1_3 = Seq (Cls is_digit) (Opt (Seq (Cls is_digit) (Opt (Cls is_digit))))"

text \<open>\<open>\d{1,3}\.\d{1,3}\.\d{1,3}\.\d{1,3}\<close>\<close>

definition ip_pattern :: regex where
  "ip_pattern =
     Seq digits_1_3 (Seq (lit ''.'') (Seq digits_1_3 (Seq (lit ''.'')
       (Seq digits_1_3 (Seq (lit ''.'') digits_1_3)))))"

text \<open>\<open>localhost|127\.0\.0\.1\<close> with \<open>re.IGNORECASE\<close>\<close>

definition localhost_pattern :: regex where
  "localhost_pattern = Alt (lit_ci ''localhost'') (lit_ci ''127.0.0.1'')"

text \<open>\<open>(database|user|password|host|port)\s*[=:][^,;\)\n]*\<close> with \<open>re.IGNORECASE\<close>\<close>

definition credential_pattern :: regex where
  "credential_pattern =
     Seq (Grp (Alt (lit_ci ''database'') (Alt (lit_ci ''user'') (Alt (lit_ci ''password'')
            (Alt (lit_ci ''host'') (lit_ci ''port''))))))
       (Seq (StarCls is_space)
         (Seq (Cls (\<lambda>c. c \<in> set ''=:''))
              (StarCls (\<lambda>c. c \<notin> set [CHR '','', CHR '';'', CHR '')'', CHR 0x0A]))))"

text \<open>\<open>[C-Z]:\\[^\s]*\<close>\<close>

definition windows_path_pattern :: regex where
  "windows_path_pattern =
     Seq (Cls (\<lambda>c. c \<in> set ''CDEFGHIJKLMNOPQRSTUVWXYZ''))
       (Seq (lit '':'') (Seq (Cls (\<lambda>c. c = CHR 0x5C)) (StarCls (\<lambda>c. \<not> is_space c))))"

text \<open>\<open>/[^\s]*\.[^\s]+\<close>\<close>

definition slash_path_pattern :: regex where
  "slash_path_pattern =
     Seq (lit ''/'') (Seq (StarCls (\<lambda>c. \<not> is_space c))
       (Seq (lit ''.'') (Seq (Cls (\<lambda>c. \<not> is_space c)) (StarCls (\<lambda>c. \<not> is_space c)))))"

definition default_message :: string where
  "default_message = ''An unexpected error occurred. Please try again.''"

definition database_failed_message :: string where
  "database_failed_message =
     ''Database operation failed. Please check your data and try again.''"

definition sanitize_error_message :: "string \<Rightarrow> string" where
  "sanitize_error_message error_str =
     (if error_str = [] then default_message
      else
        let sanitized = re_sub ip_pattern (\<lambda>m g. ''[HOST]'') error_str;
            sanitized = re_sub localhost_pattern (\<lambda>m g. ''[HOST]'') sanitized;
            sanitized = re_sub credential_pattern
                          (\<lambda>m g. (case g of None \<Rightarrow> [] | Some k \<Rightarrow> k) @ ''=[REDACTED]'')
                          sanitized;
            sanitized = (if contains (code_points ''SQL'') (upper sanitized)
                            \<or> contains (code_points ''SELECT'') (upper sanitized)
                            \<or> contains (code_points ''INSERT'') (upper sanitized)
                         then database_failed_message else sanitized);
            sanitized = re_sub windows_path_pattern (\<lambda>m g. ''[PATH]'') sanitized;
            sanitized = re_sub slash_path_pattern (\<lambda>m g. ''[PATH]'') sanitized
        in if strip sanitized \<noteq> [] then sanitized else default_message)"

section \<open>Column types and infer_mysql_type\<close>

text \<open>
  A pandas column carries a dtype; \<open>infer_mysql_type\<close> looks at nothing else. The dtype
  is modelled by its kind, and the four \<open>pd.api.types\<close> predicates by the kinds they
  accept.
\<close>

datatype dtype =
    Int64 | UInt64 | Float64 | Boolean | Datetime64 | Timedelta64 | Complex128 | Object
  | Category

definition is_integer_dtype :: "dtype \<Rightarrow> bool" where
  "is_integer_dtype d = (d = Int64 \<or> d = UInt64)"

definition is_float_dtype :: "dtype \<Rightarrow> bool" where
  "is_float_dtype d = (d = Float64)"

definition is_bool_dtype :: "dtype \<Rightarrow> bool" where
  "is_bool_dtype d = (d = Boolean)"

definition is_datetime64_any_dtype :: "dtype \<Rightarrow> bool" where
  "is_datetime64_any_dtype d = (d = Datetime64)"

definition infer_mysql_type :: "dtype \<Rightarrow> string" where
  "infer_mysql_type d =
     (if is_integer_dtype d then ''INT''
      else if is_float_dtype d then ''DOUBLE''
      else if is_bool_dtype d then ''BOOLEAN''
      else if is_datetime64_any_dtype d then ''DATETIME''
      else ''TEXT'')"

section \<open>Dataframes\<close>

text \<open>
  A cell is null (NaN, None, NaT) or holds an integer, a finite float (as the rational it
  denotes), an infinite float (\<open>InfV True\<close> the positive one), a boolean or a string. A
  dataframe is its ordered columns (name and dtype) and its rows, each row one cell per
  column. The dataframes of the page come from \<open>pd.read_csv\<close>, whose columns are
  integer, float, boolean or object columns; the other dtypes are there for
  \<open>infer_mysql_type\<close>, and no cell stands for a value of theirs.
\<close>

datatype cell = Null | IntV int | FloatV rat | InfV bool | BoolV bool | StrV string

record dataframe =
  columns :: "(string \<times> dtype) list"
  rows :: "cell list list"

definition column_names :: "dataframe \<Rightarrow> string list" where
  "column_names df = map fst (columns df)"

definition len :: "dataframe \<Rightarrow> nat" where
  "len df = length (rows df)"

definition wf_dataframe :: "dataframe \<Rightarrow> bool" where
  "wf_dataframe df =
     (distinct (column_names df) \<and> list_all (\<lambda>r. length r = length (columns df)) (rows df))"

text \<open>The cells a dtype can hold: a float column holds NaN as its null, an integer or
  boolean column holds no null, an object column holds anything.\<close>

fun cell_fits :: "dtype \<Rightarrow> cell \<Rightarrow> bool" where
  "cell_fits Object v = True"
| "cell_fits Float64 v =
     (case v of Null \<Rightarrow> True | FloatV x \<Rightarrow> True | InfV b \<Rightarrow> True | _ \<Rightarrow> False)"
| "cell_fits Int64 v = (case v of IntV n \<Rightarrow> True | _ \<Rightarrow> False)"
| "cell_fits UInt64 v = (case v of IntV n \<Rightarrow> 0 \<le> n | _ \<Rightarrow> False)"
| "cell_fits Boolean v = (case v of BoolV b \<Rightarrow> True | _ \<Rightarrow> False)"
| "cell_fits d v = (v = Null)"

definition typed_dataframe :: "dataframe \<Rightarrow> bool" where
  "typed_dataframe df =
     (wf_dataframe df \<and>
      list_all (\<lambda>r. list_all (\<lambda>((c, d), v). cell_fits d v) (zip (columns df) r)) (rows df))"

definition cell_of :: "string list \<Rightarrow> cell list \<Rightarrow> string \<Rightarrow> cell option" where
  "cell_of names r c = map_of (zip names r) c"

definition column_cells :: "dataframe \<Rightarrow> string \<Rightarrow> cell option list" where
  "column_cells df c = map (\<lambda>r. cell_of (column_names df) r c) (rows df)"

text \<open>\<open>df.columns = df.columns.str.lower().str.strip()\<close>\<close>

definition normalize_columns :: "dataframe \<Rightarrow> dataframe" where
  "normalize_columns df = df\<lparr>columns := map (\<lambda>(c, d). (strip (lower c), d)) (columns df)\<rparr>"

text \<open>\<open>df.dropna(subset=[c])\<close>, for a name \<open>c\<close> that one column has: the rows with a
  null there go, an infinite value stays. What pandas does when several columns have the
  name is outside the model.\<close>

definition dropna_subset :: "dataframe \<Rightarrow> string \<Rightarrow> dataframe" where
  "dropna_subset df c =
     df\<lparr>rows := filter (\<lambda>r. cell_of (column_names df) r c \<noteq> Some Null) (rows df)\<rparr>"

text \<open>\<open>df[columns_to_keep]\<close>, for a list of names taken from \<open>df.columns\<close> in order.\<close>

definition select_columns :: "dataframe \<Rightarrow> string list \<Rightarrow> dataframe" where
  "select_columns df keep =
     \<lparr>columns = filter (\<lambda>(c, d). c \<in> set keep) (columns df),
      rows = map (\<lambda>r. map snd (filter (\<lambda>(c, v). c \<in> set keep) (zip (column_names df) r)))
                 (rows df)\<rparr>"

subsection \<open>astype(int)\<close>

text \<open>
  \<open>int(s)\<close> on a string: surrounding whitespace is skipped, then an optional sign, then
  decimal digits, where single underscores may separate digits. The whitespace of \<open>int\<close>
  is narrower than that of \<open>str.strip\<close>: tab to carriage return and the blank, and of the
  characters above 127 next line and the no-break space, which \<open>int\<close> first turns into
  blanks; the separators 0x1C to 0x1F are not skipped.
\<close>

definition is_int_space :: "char \<Rightarrow> bool" where
  "is_int_space c = (c \<in> set [CHR 0x09, CHR 0x0A, CHR 0x0B, CHR 0x0C, CHR 0x0D, CHR '' '',
                                CHR 0x85, CHR 0xA0])"

definition digit_value :: "char \<Rightarrow> nat" where
  "digit_value c = (case map_of (zip ''0123456789'' [0, 1, 2, 3, 4, 5, 6, 7, 8, 9]) c of
                      Some n \<Rightarrow> n | None \<Rightarrow> 0)"

fun parse_digits :: "nat \<Rightarrow> bool \<Rightarrow> string \<Rightarrow> nat option" where
  "parse_digits acc prev [] = (if prev then Some acc else None)"
| "parse_digits acc prev (c # cs) =
     (if is_digit c then parse_digits (acc * 10 + digit_value c) True cs
      else if c = CHR ''_'' \<and> prev \<and> cs \<noteq> [] \<and> is_digit (hd cs) then parse_digits acc False cs
      else None)"

definition py_int_of_string :: "string \<Rightarrow> int option" where
  "py_int_of_string s =
     (case rev (dropWhile is_int_space (rev (dropWhile is_int_space s))) of
        [] \<Rightarrow> None
      | c # cs \<Rightarrow>
          if c = CHR ''-'' then map_option (\<lambda>n. - int n) (parse_digits 0 False cs)
          else if c = CHR ''+'' then map_option int (parse_digits 0 False cs)
          else map_option int (parse_digits 0 False (c # cs)))"

definition truncate :: "rat \<Rightarrow> int" where
  "truncate x = (if 0 \<le> x then \<lfloor>x\<rfloor> else \<lceil>x\<rceil>)"

definition in_int64 :: "int \<Rightarrow> bool" where
  "in_int64 n = (- (2 ^ 63) \<le> n \<and> n < 2 ^ 63)"

text \<open>
  \<open>int(v)\<close> on the Python object in a cell of an object column: a float is truncated
  towards zero, a boolean is 0 or 1, NaN and the infinite floats cannot be converted. The
  text of each exception is what \<open>str(e)\<close> gives, with \<open>repr\<close> of a string rendered as
  the string between single quotes (which it is for printable text without quotes and
  backslashes). Python versions that limit the number of digits of a literal report a
  longer one with another text; the model reports it as too large.
\<close>

definition py_int :: "cell \<Rightarrow> string + int" where
  "py_int v =
     (case v of
        Null \<Rightarrow> Inl ''cannot convert float NaN to integer''
      | InfV b \<Rightarrow> Inl ''cannot convert float infinity to integer''
      | IntV n \<Rightarrow> Inr n
      | FloatV x \<Rightarrow> Inr (truncate x)
      | BoolV b \<Rightarrow> Inr (if b then 1 else 0)
      | StrV s \<Rightarrow>
          (case py_int_of_string s of
             None \<Rightarrow> Inl (''invalid literal for int() with base 10: '' @ [CHR 0x27] @ s @ [CHR 0x27])
           | Some n \<Rightarrow> Inr n))"

definition non_finite :: string where
  "non_finite = ''Cannot convert non-finite values (NA or inf) to integer''"

definition too_large :: string where
  "too_large = ''Python int too large to convert to C long''"

text \<open>
  One cell of a column of dtype \<open>d\<close> under \<open>astype(int)\<close>. A float column is checked
  for NaN and the infinite values and then cast by numpy, which truncates; outside the
  64-bit range the cast is undefined in C, and the model takes what x86-64 gives, the
  least 64-bit integer. An integer column is kept, an unsigned one read as signed, a
  boolean column becomes 0 and 1. In any other column, an object column above all, each
  cell goes through \<open>int\<close> and has to fit a 64-bit integer.
\<close>

fun astype_int_cell :: "dtype \<Rightarrow> cell \<Rightarrow> string + int" where
  "astype_int_cell Float64 (FloatV x) =
     Inr (if in_int64 (truncate x) then truncate x else - (2 ^ 63))"
| "astype_int_cell Float64 Null = Inl non_finite"
| "astype_int_cell Float64 (InfV b) = Inl non_finite"
| "astype_int_cell Int64 (IntV n) = Inr n"
| "astype_int_cell UInt64 (IntV n) = Inr (if n < 2 ^ 63 then n else n - 2 ^ 64)"
| "astype_int_cell Boolean (BoolV b) = Inr (if b then 1 else 0)"
| "astype_int_cell d v =
     (case py_int v of
        Inl e \<Rightarrow> Inl e
      | Inr n \<Rightarrow> if in_int64 n then Inr n else Inl too_large)"

fun astype_int_row :: "(string \<times> dtype) list \<Rightarrow> string \<Rightarrow> cell list \<Rightarrow> string + cell list" where
  "astype_int_row ((n, d) # cols) c (v # vs) =
     (if n = c then
        (case astype_int_cell d v of
           Inl e \<Rightarrow> Inl e
         | Inr i \<Rightarrow> (case astype_int_row cols c vs of Inl e \<Rightarrow> Inl e | Inr vs' \<Rightarrow> Inr (IntV i # vs')))
      else (case astype_int_row cols c vs of Inl e \<Rightarrow> Inl e | Inr vs' \<Rightarrow> Inr (v # vs')))"
| "astype_int_row cols c vs = Inr []"

fun astype_int_rows ::
  "(string \<times> dtype) list \<Rightarrow> string \<Rightarrow> cell list list \<Rightarrow> string + cell list list" where
  "astype_int_rows cols c [] = Inr []"
| "astype_int_rows cols c (r # rs) =
     (case astype_int_row cols c r of
        Inl e \<Rightarrow> Inl e
      | Inr r' \<Rightarrow> (case astype_int_rows cols c rs of Inl e \<Rightarrow> Inl e | Inr rs' \<Rightarrow> Inr (r' # rs')))"

text \<open>\<open>df[c] = df[c].astype(int)\<close>, for a name \<open>c\<close> that one column has: all of the
  column or, on the first cell that cannot be converted, an exception and no dataframe.\<close>

definition astype_int_column :: "dataframe \<Rightarrow> string \<Rightarrow> string + dataframe" where
  "astype_int_column df c =
     (case astype_int_rows (columns df) c (rows df) of
        Inl e \<Rightarrow> Inl e
      | Inr rs \<Rightarrow> Inr \<lparr>columns = map (\<lambda>(n, d). if n = c then (n, Int64) else (n, d)) (columns df),
                       rows = rs\<rparr>)"

text \<open>The page works on the column \<open>applicant_id\<close>; the two steps above are modelled for a
  dataframe in which one column has this name.\<close>

definition key_column_once :: "dataframe \<Rightarrow> bool" where
  "key_column_once df = (length (filter (\<lambda>c. c = ''applicant_id'') (column_names df)) = 1)"

section \<open>The MySQL database\<close>

text \<open>
  The storage layer is not code of the program; it is modelled as far as the program uses
  it. A target table has the columns of its \<open>CREATE TABLE\<close> statement (name, MySQL type,
  and whether the column was declared \<open>PRIMARY KEY\<close>) and its rows, each row the values
  of the columns that its \<open>INSERT\<close> named. The registry \<open>_uploaded_tables\<close> is kept as a
  component of its own: absent until \<open>ensure_registry\<close> creates it, then the list of its
  entries in the order of insertion. \<open>now\<close> is the server's \<open>CURRENT_TIMESTAMP\<close>.
  Values are kept as they are sent: what the server makes of a value that does not fit the
  type of its column is outside the model.

  Target table names are keys of the table map. The statements put the names of the table
  and of the columns between backticks, so a name with a backtick in it is not one name to
  the server; and the registry is a table of the same database, so an upload aimed at the
  name \<open>_uploaded_tables\<close>, in whatever case, would write into the registry. Both are
  outside the model: it describes uploads of dataframes with \<open>plain_names\<close> to a
  \<open>target_name\<close>.
\<close>

definition registry_name :: string where
  "registry_name = ''_uploaded_tables''"

definition plain_name :: "string \<Rightarrow> bool" where
  "plain_name n = (CHR 0x60 \<notin> set n)"

definition target_name :: "string \<Rightarrow> bool" where
  "target_name tn = (plain_name tn \<and> lower tn \<noteq> registry_name)"


record table =
  tcolumns :: "(string \<times> string \<times> bool) list"
  trows :: "(string \<times> cell) list list"

record registry_entry =
  table_name :: string
  uploaded_by :: string
  uploaded_at :: nat
  row_count :: nat

record db =
  tables :: "string \<Rightarrow> table option"
  registry :: "registry_entry list option"
  now :: nat

definition registry_entries :: "db \<Rightarrow> registry_entry list" where
  "registry_entries s = (case registry s of None \<Rightarrow> [] | Some es \<Rightarrow> es)"

text \<open>
  Every call of the connector can fail with a \<open>mysql.connector.Error\<close>: the connection
  is lost, or the server refuses the statement for a reason of its own (a name it does not
  accept, a limit). Which steps fail is a parameter of the model, the set \<open>F\<close> of failing
  steps; the definitions say what a step does when it does not fail, and they let a step
  fail by itself only where no effect is possible.
\<close>

datatype step =
    Connect | EnsureRegistry | OpenCursor | CheckTable | Describe | CreateTable | Insert
  | Register | Close | ReadRegistry

type_synonym faults = "step \<Rightarrow> bool"

definition no_faults :: faults where
  "no_faults = (\<lambda>x. False)"

datatype exn = MySQLError | OtherException string

type_synonym 'a io = "(exn + 'a) \<times> db"

definition get_connection :: "faults \<Rightarrow> db \<Rightarrow> unit io" where
  "get_connection F s = (if F Connect then (Inl MySQLError, s) else (Inr (), s))"

subsection \<open>INSERT IGNORE\<close>

text \<open>
  A row whose primary-key value is already in the table is skipped, without an error; any
  other row is appended. Rows of one statement are inserted one after the other, so a
  key that occurs twice in the batch is inserted once. A table without a primary key
  takes every row.
\<close>

definition primary_key :: "table \<Rightarrow> string list" where
  "primary_key t = map fst (filter (\<lambda>(c, ty, pk). pk) (tcolumns t))"

definition key_of :: "table \<Rightarrow> (string \<times> cell) list \<Rightarrow> cell option list" where
  "key_of t r = map (map_of r) (primary_key t)"

definition collides :: "table \<Rightarrow> (string \<times> cell) list \<Rightarrow> bool" where
  "collides t r = (primary_key t \<noteq> [] \<and> key_of t r \<in> set (map (key_of t) (trows t)))"

fun insert_ignore :: "table \<Rightarrow> (string \<times> cell) list list \<Rightarrow> table" where
  "insert_ignore t [] = t"
| "insert_ignore t (r # rs) =
     insert_ignore (if collides t r then t else t\<lparr>trows := trows t @ [r]\<rparr>) rs"

subsection \<open>create_table_from_df and insert_dataframe\<close>

text \<open>The table that the \<open>CREATE TABLE\<close> statement describes: a column for each column
  of the dataframe, of the type inferred from its dtype, \<open>applicant_id\<close> the primary
  key; no row yet.\<close>

definition new_table :: "dataframe \<Rightarrow> table" where
  "new_table df =
     \<lparr>tcolumns = map (\<lambda>(col, d). (col, infer_mysql_type d, col = ''applicant_id'')) (columns df),
      trows = []\<rparr>"

text \<open>\<open>CREATE TABLE IF NOT EXISTS\<close> leaves a table that exists as it is.\<close>

definition create_table_from_df :: "faults \<Rightarrow> db \<Rightarrow> dataframe \<Rightarrow> string \<Rightarrow> unit io" where
  "create_table_from_df F s df tn =
     (if F CreateTable then (Inl MySQLError, s)
      else case tables s tn of
        Some t \<Rightarrow> (Inr (), s)
      | None \<Rightarrow> (Inr (), s\<lparr>tables := (tables s)(tn \<mapsto> new_table df)\<rparr>))"

text \<open>The statement names the dataframe's columns; the server refuses it when the table
  is missing or lacks one of them. \<open>executemany\<close> sends nothing for an empty list of
  rows. Nothing is kept of a statement that fails: the commit comes after it.\<close>

definition insert_dataframe :: "faults \<Rightarrow> db \<Rightarrow> dataframe \<Rightarrow> string \<Rightarrow> unit io" where
  "insert_dataframe F s df tn =
     (if F Insert then (Inl MySQLError, s)
      else if rows df = [] then (Inr (), s)
      else case tables s tn of
        None \<Rightarrow> (Inl MySQLError, s)
      | Some t \<Rightarrow>
          if \<not> set (column_names df) \<subseteq> set (map fst (tcolumns t)) then (Inl MySQLError, s)
          else (Inr (),
                s\<lparr>tables := (tables s)(tn \<mapsto>
                    insert_ignore t (map (zip (column_names df)) (rows df)))\<rparr>))"

subsection \<open>Registry functions\<close>

definition ensure_registry :: "faults \<Rightarrow> db \<Rightarrow> unit io" where
  "ensure_registry F s =
     (if F EnsureRegistry then (Inl MySQLError, s)
      else (Inr (), s\<lparr>registry := Some (registry_entries s)\<rparr>))"

definition register_table :: "faults \<Rightarrow> db \<Rightarrow> string \<Rightarrow> string \<Rightarrow> nat \<Rightarrow> unit io" where
  "register_table F s tn uploader n =
     (if F Register then (Inl MySQLError, s)
      else case registry s of
        None \<Rightarrow> (Inl MySQLError, s)
      | Some es \<Rightarrow>
          (Inr (),
           s\<lparr>registry := Some (es @ [\<lparr>table_name = tn, uploaded_by = uploader,
                                        uploaded_at = now s, row_count = n\<rparr>])\<rparr>))"

definition registry_columns :: "string list" where
  "registry_columns = [''table_name'', ''uploaded_by'', ''uploaded_at'', ''row_count'']"

text \<open>\<open>ORDER BY uploaded_at DESC\<close>. SQL leaves the order of entries with equal
  timestamps open; the model takes the later insertion first.\<close>

definition order_by_uploaded_at_desc :: "registry_entry list \<Rightarrow> registry_entry list" where
  "order_by_uploaded_at_desc es = rev (sort_key uploaded_at es)"

text \<open>The function catches \<open>mysql.connector.Error\<close> itself and answers \<open>[], []\<close>.\<close>

definition get_registry_data :: "faults \<Rightarrow> db \<Rightarrow> (string list \<times> registry_entry list) io" where
  "get_registry_data F s =
     (if F ReadRegistry then (Inr ([], []), s)
      else case registry s of
        None \<Rightarrow> (Inr ([], []), s)
      | Some es \<Rightarrow> (Inr (registry_columns, order_by_uploaded_at_desc es), s))"

subsection \<open>get_table_columns and validate_and_append_data\<close>

text \<open>\<open>DESCRIBE\<close>; the function catches every exception and answers \<open>None\<close>.\<close>

definition get_table_columns :: "faults \<Rightarrow> db \<Rightarrow> string \<Rightarrow> string list option io" where
  "get_table_columns F s tn =
     (if F Describe then (Inr None, s)
      else case tables s tn of
        None \<Rightarrow> (Inr None, s)
      | Some t \<Rightarrow> (Inr (Some (map fst (tcolumns t))), s))"

definition no_matching_columns :: string where
  "no_matching_columns = ''No matching columns found in existing table.''"

definition unable_to_validate :: string where
  "unable_to_validate = ''Unable to validate table structure. Please try again.''"

text \<open>
  The function returns the pair \<open>(df, None)\<close> or \<open>(None, message)\<close>: here \<open>Inr df\<close> or
  \<open>Inl message\<close>. The cursor is opened before the \<open>try\<close>, so only that step lets an
  exception out.
\<close>

definition validate_and_append_data ::
  "faults \<Rightarrow> db \<Rightarrow> dataframe \<Rightarrow> string \<Rightarrow> (string + dataframe) io" where
  "validate_and_append_data F s df tn =
     (if F OpenCursor then (Inl MySQLError, s)
      else if F CheckTable then (Inr (Inl unable_to_validate), s)
      else if tables s tn \<noteq> None then
        (case get_table_columns F s tn of
           (Inr (Some existing_columns), s') \<Rightarrow>
             if existing_columns \<noteq> [] then
               let columns_to_keep = filter (\<lambda>col. col \<in> set existing_columns) (column_names df)
               in if columns_to_keep = [] then (Inr (Inl no_matching_columns), s')
                  else (Inr (Inr (select_columns df columns_to_keep)), s')
             else (Inr (Inr df), s')
         | (Inr None, s') \<Rightarrow> (Inr (Inr df), s')
         | (Inl e, s') \<Rightarrow> (Inl e, s'))
      else (Inr (Inr df), s))"

section \<open>The upload page of show_app\<close>

text \<open>
  What the page shows: \<open>st.error\<close>, the \<open>st.warning\<close> about dropped rows, and
  \<open>st.success\<close> with the number of rows, the table and the uploader. The pictograms
  that the page puts in front of each text are left out.
\<close>

datatype message = StError string | StWarningDropped nat | StSuccess nat string string

definition name_required :: string where
  "name_required = ''Your Full Name is required. Please provide your name to upload.''"

definition table_required :: string where
  "table_required = ''Target Table Name is required.''"

definition applicant_id_required :: string where
  "applicant_id_required = ''CSV must contain an 'applicant_id' column to use as primary key.''"

definition unable_to_connect :: string where
  "unable_to_connect = ''Unable to connect to database. Please check your network and try again.''"

text \<open>The two \<open>except\<close> clauses of the handler.\<close>

definition on_exception :: "exn \<Rightarrow> message" where
  "on_exception e =
     (case e of
        MySQLError \<Rightarrow> StError unable_to_connect
      | OtherException txt \<Rightarrow> StError (sanitize_error_message txt))"

text \<open>Lines 485 to 500: reconcile the columns, then create, insert, register and close
  the connection.\<close>

definition reconcile_and_store ::
  "faults \<Rightarrow> db \<Rightarrow> dataframe \<Rightarrow> string \<Rightarrow> string \<Rightarrow> message list \<times> db" where
  "reconcile_and_store F s df tn uploader =
     (case validate_and_append_data F s df tn of
        (Inl e, s1) \<Rightarrow> ([on_exception e], s1)
      | (Inr (Inl error_msg), s1) \<Rightarrow> ([StError error_msg], s1)
      | (Inr (Inr df_filtered), s1) \<Rightarrow>
          (case create_table_from_df F s1 df_filtered tn of
             (Inl e, s2) \<Rightarrow> ([on_exception e], s2)
           | (Inr u, s2) \<Rightarrow>
               (case insert_dataframe F s2 df_filtered tn of
                  (Inl e, s3) \<Rightarrow> ([on_exception e], s3)
                | (Inr u, s3) \<Rightarrow>
                    (case register_table F s3 tn uploader (len df_filtered) of
                       (Inl e, s4) \<Rightarrow> ([on_exception e], s4)
                     | (Inr u, s4) \<Rightarrow>
                         if F Close then ([on_exception MySQLError], s4)
                         else ([StSuccess (len df_filtered) tn uploader], s4)))))"

text \<open>Lines 479 to 500: connect, ensure the registry, then the above.\<close>

definition connect_and_store ::
  "faults \<Rightarrow> db \<Rightarrow> dataframe \<Rightarrow> string \<Rightarrow> string \<Rightarrow> message list \<times> db" where
  "connect_and_store F s df tn uploader =
     (case get_connection F s of
        (Inl e, s1) \<Rightarrow> ([on_exception e], s1)
      | (Inr u, s1) \<Rightarrow>
          (case ensure_registry F s1 of
             (Inl e, s2) \<Rightarrow> ([on_exception e], s2)
           | (Inr u, s2) \<Rightarrow> reconcile_and_store F s2 df tn uploader))"

text \<open>Lines 469 to 500, the branch of the page that ingests the dataframe: drop the rows
  without a key, convert the key, report the dropped rows, then the above. Replacing NaN
  by None (line 477) changes no cell of the model, where both are \<open>Null\<close>.\<close>

definition clean_and_store ::
  "faults \<Rightarrow> db \<Rightarrow> dataframe \<Rightarrow> string \<Rightarrow> string \<Rightarrow> message list \<times> db" where
  "clean_and_store F s df tn uploader =
     (let before_len = len df;
          df1 = dropna_subset df ''applicant_id''
      in case astype_int_column df1 ''applicant_id'' of
           Inl e \<Rightarrow> ([on_exception (OtherException e)], s)
         | Inr df2 \<Rightarrow>
             let dropped = before_len - len df2;
                 warning = (if dropped > 0 then [StWarningDropped dropped] else []);
                 (msgs, s') = connect_and_store F s df2 tn uploader
             in (warning @ msgs, s'))"

text \<open>The button "Upload to MySQL" (lines 457 to 508), on the dataframe with normalised
  column names.\<close>

definition upload_to_mysql ::
  "faults \<Rightarrow> db \<Rightarrow> dataframe \<Rightarrow> string \<Rightarrow> string \<Rightarrow> message list \<times> db" where
  "upload_to_mysql F s df tn uploader =
     (if uploader = [] \<or> strip uploader = [] then ([StError name_required], s)
      else if tn = [] \<or> strip tn = [] then ([StError table_required], s)
      else if ''applicant_id'' \<notin> set (column_names df) then ([StError applicant_id_required], s)
      else clean_and_store F s df tn uploader)"

text \<open>The page from the uploaded file on (lines 441 to 508): the column names are
  normalised before anything else looks at them.\<close>

definition show_app_upload ::
  "faults \<Rightarrow> db \<Rightarrow> dataframe \<Rightarrow> string \<Rightarrow> string \<Rightarrow> message list \<times> db" where
  "show_app_upload F s df tn uploader = upload_to_mysql F s (normalize_columns df) tn uploader"

section \<open>Concrete inputs\<close>

text \<open>A database with no table and no registry yet.\<close>

definition empty_db :: db where
  "empty_db = \<lparr>tables = (\<lambda>tn. None), registry = None, now = 7\<rparr>"

text \<open>Five rows read from a file whose header is \<open>Applicant_ID ,age,income\<close>; the third
  row has no applicant id, which makes the column a float column.\<close>

definition risk_batch :: dataframe where
  "risk_batch =
     \<lparr>columns = [(''Applicant_ID '', Float64), (''age'', Int64), (''income'', Float64)],
      rows = [[FloatV 1, IntV 30, FloatV 10], [FloatV 2, IntV 31, FloatV 3],
              [Null, IntV 32, FloatV 5], [FloatV 4, IntV 33, FloatV 1],
              [FloatV 5, IntV 34, FloatV 1]]\<rparr>"

definition risk_batch_lowercase :: dataframe where
  "risk_batch_lowercase =
     risk_batch\<lparr>columns := [(''applicant_id'', Float64), (''age'', Int64), (''income'', Float64)]\<rparr>"

text \<open>One row, and the states after uploading it once and twice.\<close>

definition one_row :: dataframe where
  "one_row = \<lparr>columns = [(''applicant_id'', Int64), (''age'', Int64)], rows = [[IntV 1, IntV 30]]\<rparr>"



text \<open>A column with no value at all, as a float column of NaN.\<close>

definition all_null_income :: dataframe where
  "all_null_income =
     \<lparr>columns = [(''applicant_id'', Int64), (''income'', Float64)],
      rows = [[IntV 1, Null], [IntV 2, Null]]\<rparr>"

text \<open>A key column with a null and a value that is no integer.\<close>

definition bad_key :: dataframe where
  "bad_key = \<lparr>columns = [(''applicant_id'', Object), (''age'', Int64)],
              rows = [[StrV ''x'', IntV 30], [Null, IntV 31]]\<rparr>"

text \<open>An existing table that shares no column with \<open>one_row\<close>, and one that shares
  \<open>applicant_id\<close> only.\<close>

definition foreign_db :: db where
  "foreign_db =
     \<lparr>tables = (\<lambda>tn. None)(''branches'' \<mapsto> \<lparr>tcolumns = [(''branch'', ''TEXT'', False)], trows = []\<rparr>),
      registry = None, now = 7\<rparr>"


text \<open>A registry after uploads to \<open>a\<close>, \<open>b\<close> and \<open>a\<close> again.\<close>

definition three_uploads :: db where
  "three_uploads =
     \<lparr>tables = (\<lambda>tn. None),
      registry = Some [\<lparr>table_name = ''a'', uploaded_by = ''Ann'', uploaded_at = 1, row_count = 4\<rparr>,
                       \<lparr>table_name = ''b'', uploaded_by = ''Bob'', uploaded_at = 2, row_count = 2\<rparr>,
                       \<lparr>table_name = ''a'', uploaded_by = ''Ann'', uploaded_at = 3, row_count = 0\<rparr>],
      now = 7\<rparr>"

section \<open>Type inference\<close>

text \<open>
  C2, as the code has it. \<open>infer_mysql_type\<close> is a total function of the column's dtype:
  it answers exactly one of INT, DOUBLE, BOOLEAN, DATETIME and TEXT, trying integer, float,
  boolean and datetime in this order, and TEXT exactly when the dtype is none of the four.
  The values of the column play no part, so a column of nulls gets the type of its dtype.
\<close>

theorem infer_mysql_type_by_dtype:
  "infer_mysql_type d \<in> {''INT'', ''DOUBLE'', ''BOOLEAN'', ''DATETIME'', ''TEXT''}
   \<and> (infer_mysql_type d = ''INT'') = is_integer_dtype d
   \<and> (infer_mysql_type d = ''DOUBLE'') = (\<not> is_integer_dtype d \<and> is_float_dtype d)
   \<and> (infer_mysql_type d = ''BOOLEAN'') =
       (\<not> is_integer_dtype d \<and> \<not> is_float_dtype d \<and> is_bool_dtype d)
   \<and> (infer_mysql_type d = ''DATETIME'') =
       (\<not> is_integer_dtype d \<and> \<not> is_float_dtype d \<and> \<not> is_bool_dtype d
        \<and> is_datetime64_any_dtype d)
   \<and> (infer_mysql_type d = ''TEXT'') =
       (\<not> is_integer_dtype d \<and> \<not> is_float_dtype d \<and> \<not> is_bool_dtype d
        \<and> \<not> is_datetime64_any_dtype d)"
  by (simp add: infer_mysql_type_def)

theorem infer_mysql_type_by_dtype_witness:
  "infer_mysql_type Object = ''TEXT'' \<and> infer_mysql_type Float64 = ''DOUBLE''"
  using infer_mysql_type_by_dtype [of Object] infer_mysql_type_by_dtype [of Float64]
  by (simp add: is_integer_dtype_def is_float_dtype_def is_bool_dtype_def
      is_datetime64_any_dtype_def)

text \<open>
  C2 as stated fails: the column \<open>income\<close> of \<open>all_null_income\<close> holds nulls only, and
  the table created from the dataframe types it DOUBLE, not TEXT.
\<close>

theorem all_null_column_infers_double:
  "typed_dataframe all_null_income
   \<and> column_cells all_null_income ''income'' = [Some Null, Some Null]
   \<and> map_option tcolumns
        (tables (snd (create_table_from_df no_faults empty_db all_null_income ''t'')) ''t'')
      = Some [(''applicant_id'', ''INT'', True), (''income'', ''DOUBLE'', False)]"
  by (simp add: typed_dataframe_def wf_dataframe_def all_null_income_def column_names_def
      column_cells_def cell_of_def create_table_from_df_def new_table_def no_faults_def
      empty_db_def infer_mysql_type_def is_integer_dtype_def is_float_dtype_def)

section \<open>Reading the registry\<close>

lemma order_by_uploaded_at_desc_sorted:
  "sorted_wrt (\<lambda>a b. uploaded_at a \<ge> uploaded_at b) (order_by_uploaded_at_desc es)"
proof -
  have "sorted (map uploaded_at (sort_key uploaded_at es))"
    by (rule sorted_sort_key)
  then have "sorted_wrt (\<lambda>a b. uploaded_at a \<le> uploaded_at b) (sort_key uploaded_at es)"
    by (simp add: sorted_wrt_map)
  then show ?thesis
    by (simp add: order_by_uploaded_at_desc_def sorted_wrt_rev)
qed

lemma order_by_uploaded_at_desc_mset: "mset (order_by_uploaded_at_desc es) = mset es"
  by (simp add: order_by_uploaded_at_desc_def)

text \<open>
  C9. \<open>get_registry_data\<close> leaves the database as it is and never raises. Its entries
  come newest first; they are all the entries of the registry when the query goes
  through, and none (with no column names) when the server fails.
\<close>

theorem get_registry_data_newest_first:
  "snd (get_registry_data F s) = s
   \<and> (\<exists>cols es. fst (get_registry_data F s) = Inr (cols, es)
        \<and> sorted_wrt (\<lambda>a b. uploaded_at a \<ge> uploaded_at b) es
        \<and> (F ReadRegistry \<longrightarrow> cols = [] \<and> es = [])
        \<and> (\<not> F ReadRegistry \<longrightarrow> mset es = mset (registry_entries s)))"
  by (cases "registry s")
     (simp_all add: get_registry_data_def registry_entries_def
        order_by_uploaded_at_desc_sorted order_by_uploaded_at_desc_mset)

theorem get_registry_data_newest_first_witness:
  "snd (get_registry_data no_faults three_uploads) = three_uploads
   \<and> map (\<lambda>e. (table_name e, uploaded_at e))
         (snd (projr (fst (get_registry_data no_faults three_uploads))))
       = [(''a'', 3), (''b'', 2), (''a'', 1)]
   \<and> fst (get_registry_data (\<lambda>x. x = ReadRegistry) three_uploads) = Inr ([], [])"
  using get_registry_data_newest_first [of no_faults three_uploads]
    get_registry_data_newest_first [of "\<lambda>x. x = ReadRegistry" three_uploads]
  by (simp add: get_registry_data_def no_faults_def three_uploads_def
      order_by_uploaded_at_desc_def)

section \<open>Sanitising error messages\<close>

lemma strip_Nil: "strip [] = []"
  by (simp add: strip_def)

text \<open>Whatever the substitutions do, the last line of the function never lets an empty
  message out.\<close>

lemma sanitize_error_message_nonempty: "sanitize_error_message e \<noteq> []"
  by (auto simp: sanitize_error_message_def Let_def default_message_def strip_Nil)

text \<open>
  C7 does not hold of the code. The function is documented to mask hosts and file paths,
  but a path without a dot after its slash and a host name other than \<open>localhost\<close> pass
  through it unchanged.
\<close>

theorem sanitize_error_message_keeps_path_and_hostname:
  "sanitize_error_message ''cannot open /home/deploy/secrets (permission denied)''
     = ''cannot open /home/deploy/secrets (permission denied)''
   \<and> sanitize_error_message ''Unknown server host db.prod.example.com (11001)''
     = ''Unknown server host db.prod.example.com (11001)''"
  by code_simp

section \<open>Column names of the uploaded file\<close>

lemma normalize_columns_cong:
  assumes "map (\<lambda>(c, d). (strip (lower c), d)) (columns df)
             = map (\<lambda>(c, d). (strip (lower c), d)) (columns df')"
    and "rows df = rows df'"
  shows "normalize_columns df = normalize_columns df'"
  using assms by (simp add: normalize_columns_def)

lemma column_names_normalize_columns:
  "column_names (normalize_columns df) = map (\<lambda>c. strip (lower c)) (column_names df)"
  by (simp add: normalize_columns_def column_names_def case_prod_unfold comp_def)

text \<open>
  C10. The page hands the dataframe to the upload only after its column names have been
  lowercased and stripped, so two files whose headers differ in case and surrounding
  whitespace only, with the same rows, get the same answer and leave the same database:
  the check for \<open>applicant_id\<close> and the matching against an existing table see the
  normalised names.
\<close>

theorem show_app_upload_header_insensitive:
  assumes "map (\<lambda>(c, d). (strip (lower c), d)) (columns df)
             = map (\<lambda>(c, d). (strip (lower c), d)) (columns df')"
    and "rows df = rows df'"
  shows "show_app_upload F s df tn uploader = show_app_upload F s df' tn uploader
         \<and> show_app_upload F s df tn uploader
             = upload_to_mysql F s (normalize_columns df) tn uploader
         \<and> column_names (normalize_columns df) = map (\<lambda>c. strip (lower c)) (column_names df)"
proof -
  have "normalize_columns df = normalize_columns df'"
    using assms by (rule normalize_columns_cong)
  then have "show_app_upload F s df tn uploader = show_app_upload F s df' tn uploader"
    by (simp add: show_app_upload_def)
  then show ?thesis
    by (simp add: column_names_normalize_columns) (simp add: show_app_upload_def)
qed

theorem show_app_upload_header_insensitive_witness:
  "map (\<lambda>(c, d). (strip (lower c), d)) (columns risk_batch)
     = map (\<lambda>(c, d). (strip (lower c), d)) (columns risk_batch_lowercase)
   \<and> rows risk_batch = rows risk_batch_lowercase
   \<and> column_names risk_batch = [''Applicant_ID '', ''age'', ''income'']
   \<and> fst (show_app_upload no_faults empty_db risk_batch ''risk_batch1'' ''Ann'')
       = [StWarningDropped 1, StSuccess 4 ''risk_batch1'' ''Ann'']
   \<and> show_app_upload no_faults empty_db risk_batch ''risk_batch1'' ''Ann''
       = show_app_upload no_faults empty_db risk_batch_lowercase ''risk_batch1'' ''Ann''"
proof -
  have h1: "map (\<lambda>(c, d). (strip (lower c), d)) (columns risk_batch)
     = map (\<lambda>(c, d). (strip (lower c), d)) (columns risk_batch_lowercase)"
    by code_simp
  have h2: "rows risk_batch = rows risk_batch_lowercase"
    by code_simp
  have h3: "column_names risk_batch = [''Applicant_ID '', ''age'', ''income'']"
    by code_simp
  have h4: "fst (show_app_upload no_faults empty_db risk_batch ''risk_batch1'' ''Ann'')
       = [StWarningDropped 1, StSuccess 4 ''risk_batch1'' ''Ann'']"
    by code_simp
  from show_app_upload_header_insensitive [OF h1 h2]
  have "show_app_upload no_faults empty_db risk_batch ''risk_batch1'' ''Ann''
       = show_app_upload no_faults empty_db risk_batch_lowercase ''risk_batch1'' ''Ann''"
    by blast
  with h1 h2 h3 h4 show ?thesis
    by blast
qed

section \<open>The key column: missing, or not an integer\<close>

text \<open>What \<open>int\<close> takes for whitespace, and what it does not.\<close>

lemma py_int_of_string_examples:
  "py_int_of_string [CHR 0xA0, CHR ''1'', CHR ''2'', CHR 0xA0] = Some 12
   \<and> py_int_of_string [CHR 0x1C, CHR ''1'', CHR ''2''] = None
   \<and> py_int_of_string '' -1_000 '' = Some (- 1000)
   \<and> py_int_of_string ''1.5'' = None"
  by code_simp

lemma astype_int_row_fails:
  "cell_of (map fst cols) r c = Some v \<Longrightarrow> map_of cols c = Some d \<Longrightarrow> isl (astype_int_cell d v)
     \<Longrightarrow> isl (astype_int_row cols c r)"
proof (induction cols c r rule: astype_int_row.induct)
  case (1 n d' cols c v' vs)
  then show ?case
    by (auto simp: cell_of_def split: sum.splits if_splits)
qed (simp_all add: cell_of_def)

lemma astype_int_rows_fails:
  "r \<in> set rs \<Longrightarrow> isl (astype_int_row cols c r) \<Longrightarrow> isl (astype_int_rows cols c rs)"
  by (induction rs) (auto split: sum.splits)

lemma column_names_dropna_subset [simp]:
  "column_names (dropna_subset df c) = column_names df"
  by (simp add: dropna_subset_def column_names_def)

lemma columns_dropna_subset [simp]: "columns (dropna_subset df c) = columns df"
  by (simp add: dropna_subset_def)

lemma clean_and_store_key_not_coercible:
  assumes "r \<in> set (rows df)"
    and "cell_of (column_names df) r ''applicant_id'' = Some v"
    and "map_of (columns df) ''applicant_id'' = Some d"
    and "v \<noteq> Null"
    and "isl (astype_int_cell d v)"
  shows "\<exists>msg. clean_and_store F s df tn uploader = ([StError msg], s)"
proof -
  from assms(1,2,4) have "r \<in> set (rows (dropna_subset df ''applicant_id''))"
    by (simp add: dropna_subset_def)
  moreover from assms(2,3,5) have "isl (astype_int_row (columns df) ''applicant_id'' r)"
    unfolding column_names_def by (rule astype_int_row_fails)
  ultimately have "isl (astype_int_rows (columns df) ''applicant_id''
                          (rows (dropna_subset df ''applicant_id'')))"
    by (rule astype_int_rows_fails)
  then obtain e where "astype_int_column (dropna_subset df ''applicant_id'') ''applicant_id'' = Inl e"
    by (cases "astype_int_rows (columns df) ''applicant_id''
                 (rows (dropna_subset df ''applicant_id''))")
       (auto simp: astype_int_column_def)
  then show ?thesis
    by (simp add: clean_and_store_def on_exception_def Let_def)
qed

lemma upload_to_mysql_no_applicant_id:
  assumes "''applicant_id'' \<notin> set (column_names df)"
  shows "\<exists>msg. upload_to_mysql F s df tn uploader = ([StError msg], s)"
  using assms by (simp add: upload_to_mysql_def)

lemma upload_to_mysql_guards:
  "(\<exists>msg. upload_to_mysql F s df tn uploader = ([StError msg], s))
   \<or> upload_to_mysql F s df tn uploader = clean_and_store F s df tn uploader"
  by (simp add: upload_to_mysql_def)

text \<open>
  C4. When the dataframe has no column \<open>applicant_id\<close>, or its one column of that name
  holds a value other than null that \<open>astype(int)\<close> cannot convert, the upload answers
  with one error message and the database is what it was: the failure comes before the
  connection is opened, and no row of the batch is converted or stored.
\<close>

theorem upload_to_mysql_rejects_bad_key:
  assumes "''applicant_id'' \<notin> set (column_names df)
           \<or> (key_column_once df
               \<and> (\<exists>r \<in> set (rows df). \<exists>v d.
                     cell_of (column_names df) r ''applicant_id'' = Some v
                     \<and> map_of (columns df) ''applicant_id'' = Some d
                     \<and> v \<noteq> Null \<and> isl (astype_int_cell d v)))"
  shows "snd (upload_to_mysql F s df tn uploader) = s
         \<and> (\<exists>msg. fst (upload_to_mysql F s df tn uploader) = [StError msg])"
proof -
  have "\<exists>msg. upload_to_mysql F s df tn uploader = ([StError msg], s)"
    using assms upload_to_mysql_no_applicant_id [of df F s tn uploader]
      clean_and_store_key_not_coercible [of _ df _ _ F s tn uploader]
      upload_to_mysql_guards [of F s df tn uploader]
    by metis
  then show ?thesis by auto
qed

theorem upload_to_mysql_rejects_bad_key_witness:
  "snd (upload_to_mysql no_faults empty_db bad_key ''loans'' ''Ann'') = empty_db
   \<and> (\<exists>msg. fst (upload_to_mysql no_faults empty_db bad_key ''loans'' ''Ann'') = [StError msg])
   \<and> snd (upload_to_mysql no_faults empty_db risk_batch ''loans'' ''Ann'') = empty_db
   \<and> (\<exists>msg. fst (upload_to_mysql no_faults empty_db risk_batch ''loans'' ''Ann'') = [StError msg])"
proof -
  have once: "key_column_once bad_key"
    by code_simp
  have "\<exists>r \<in> set (rows bad_key). \<exists>v d.
          cell_of (column_names bad_key) r ''applicant_id'' = Some v
          \<and> map_of (columns bad_key) ''applicant_id'' = Some d
          \<and> v \<noteq> Null \<and> isl (astype_int_cell d v)"
  proof (intro bexI exI conjI)
    show "cell_of (column_names bad_key) [StrV ''x'', IntV 30] ''applicant_id'' = Some (StrV ''x'')"
      by code_simp
    show "map_of (columns bad_key) ''applicant_id'' = Some Object"
      by code_simp
    show "StrV ''x'' \<noteq> Null"
      by simp
    show "isl (astype_int_cell Object (StrV ''x''))"
      by code_simp
    show "[StrV ''x'', IntV 30] \<in> set (rows bad_key)"
      by code_simp
  qed
  with once have bad: "''applicant_id'' \<notin> set (column_names bad_key)
           \<or> (key_column_once bad_key
               \<and> (\<exists>r \<in> set (rows bad_key). \<exists>v d.
                     cell_of (column_names bad_key) r ''applicant_id'' = Some v
                     \<and> map_of (columns bad_key) ''applicant_id'' = Some d
                     \<and> v \<noteq> Null \<and> isl (astype_int_cell d v)))"
    by blast
  have missing: "''applicant_id'' \<notin> set (column_names risk_batch)
           \<or> (key_column_once risk_batch
               \<and> (\<exists>r \<in> set (rows risk_batch). \<exists>v d.
                     cell_of (column_names risk_batch) r ''applicant_id'' = Some v
                     \<and> map_of (columns risk_batch) ''applicant_id'' = Some d
                     \<and> v \<noteq> Null \<and> isl (astype_int_cell d v)))"
    by (rule disjI1) code_simp
  show ?thesis
    using upload_to_mysql_rejects_bad_key [OF bad, of no_faults empty_db "''loans''" "''Ann''"]
      upload_to_mysql_rejects_bad_key [OF missing, of no_faults empty_db "''loans''" "''Ann''"]
    by blast
qed

section \<open>Rows without a key\<close>

lemma astype_int_row_other:
  "c \<notin> set (map fst cols) \<Longrightarrow> astype_int_row cols c vs = Inr (take (length cols) vs)"
  by (induction cols c vs rule: astype_int_row.induct) auto

lemma astype_int_row_ok:
  assumes "length (filter (\<lambda>n. n = c) (map fst cols)) \<le> 1"
    and "\<And>v d. cell_of (map fst cols) r c = Some v \<Longrightarrow> map_of cols c = Some d
            \<Longrightarrow> \<not> isl (astype_int_cell d v)"
  shows "\<exists>r'. astype_int_row cols c r = Inr r' \<and> length r' = min (length cols) (length r)"
  using assms
proof (induction cols c r rule: astype_int_row.induct)
  case (1 n d cols c v vs)
  show ?case
  proof (cases "n = c")
    case True
    with "1.prems"(1) have "length (filter (\<lambda>p. fst p = c) cols) = 0"
      by (simp add: filter_map comp_def)
    then have "c \<notin> set (map fst cols)"
      by (auto simp: filter_empty_conv)
    moreover from True "1.prems"(2) [of v d] have "\<not> isl (astype_int_cell d v)"
      by (simp add: cell_of_def)
    ultimately show ?thesis
      using True by (cases "astype_int_cell d v") (auto simp: astype_int_row_other)
  next
    case False
    have "\<exists>r'. astype_int_row cols c vs = Inr r' \<and> length r' = min (length cols) (length vs)"
    proof (rule "1.IH"(2) [OF False])
      show "length (filter (\<lambda>n. n = c) (map fst cols)) \<le> 1"
        using "1.prems"(1) False by simp
      fix v' d'
      assume "cell_of (map fst cols) vs c = Some v'" and "map_of cols c = Some d'"
      with False have "cell_of (map fst ((n, d) # cols)) (v # vs) c = Some v'"
        and "map_of ((n, d) # cols) c = Some d'"
        by (simp_all add: cell_of_def)
      then show "\<not> isl (astype_int_cell d' v')"
        by (rule "1.prems"(2))
    qed
    with False show ?thesis
      by auto
  qed
qed auto

lemma astype_int_rows_ok:
  assumes "length (filter (\<lambda>n. n = c) (map fst cols)) \<le> 1"
    and "\<And>r v d. r \<in> set rs \<Longrightarrow> cell_of (map fst cols) r c = Some v \<Longrightarrow> map_of cols c = Some d
            \<Longrightarrow> \<not> isl (astype_int_cell d v)"
  shows "\<exists>rs'. astype_int_rows cols c rs = Inr rs' \<and> length rs' = length rs"
  using assms(2)
proof (induction rs)
  case Nil
  then show ?case by simp
next
  case (Cons r rs)
  from astype_int_row_ok [OF assms(1), of r] Cons.prems
  obtain r' where "astype_int_row cols c r = Inr r'"
    by (metis list.set_intros(1))
  moreover from Cons obtain rs' where "astype_int_rows cols c rs = Inr rs'" "length rs' = length rs"
    by (metis list.set_intros(2))
  ultimately show ?case by simp
qed

lemma len_dropna_subset:
  "len (dropna_subset df c) + length (filter (\<lambda>r. cell_of (column_names df) r c = Some Null) (rows df))
     = len df"
proof -
  have "length (filter (\<lambda>r. cell_of (column_names df) r c = Some Null) (rows df))
        + length (filter (\<lambda>r. \<not> cell_of (column_names df) r c = Some Null) (rows df))
        = length (rows df)"
    by (rule sum_length_filter_compl)
  then show ?thesis
    by (simp add: len_def dropna_subset_def)
qed

text \<open>
  C5, as the code has it. The dataframe has one column \<open>applicant_id\<close>, with \<open>k\<close> nulls
  in it. When \<open>astype(int)\<close> accepts every other value of the column, the \<open>k\<close> rows are
  dropped and the other rows, their keys converted, are all that the storage steps get;
  \<open>k\<close> is reported by a warning when it is positive, and the drop itself adds no error to
  what the storage steps answer. When \<open>astype(int)\<close> refuses one of the other values,
  the page shows one error and nothing about dropped rows, and the database is what it
  was.
\<close>

theorem clean_and_store_drops_null_keys:
  assumes "key_column_once df"
    and "k = length (filter (\<lambda>r. cell_of (column_names df) r ''applicant_id'' = Some Null) (rows df))"
  shows "((\<forall>r \<in> set (rows df). \<forall>v d.
             cell_of (column_names df) r ''applicant_id'' = Some v
             \<longrightarrow> map_of (columns df) ''applicant_id'' = Some d
             \<longrightarrow> v \<noteq> Null \<longrightarrow> \<not> isl (astype_int_cell d v))
          \<longrightarrow> (\<exists>df2. astype_int_column (dropna_subset df ''applicant_id'') ''applicant_id'' = Inr df2
                 \<and> astype_int_rows (columns df) ''applicant_id''
                      (filter (\<lambda>r. cell_of (column_names df) r ''applicant_id'' \<noteq> Some Null) (rows df))
                    = Inr (rows df2)
                 \<and> len df2 + k = len df
                 \<and> clean_and_store F s df tn uploader
                    = ((if 0 < k then [StWarningDropped k] else [])
                         @ fst (connect_and_store F s df2 tn uploader),
                       snd (connect_and_store F s df2 tn uploader))))
         \<and> ((\<exists>r \<in> set (rows df). \<exists>v d.
                cell_of (column_names df) r ''applicant_id'' = Some v
                \<and> map_of (columns df) ''applicant_id'' = Some d
                \<and> v \<noteq> Null \<and> isl (astype_int_cell d v))
             \<longrightarrow> (\<exists>msg. clean_and_store F s df tn uploader = ([StError msg], s)))"
proof (intro conjI impI)
  let ?kept = "filter (\<lambda>r. cell_of (column_names df) r ''applicant_id'' \<noteq> Some Null) (rows df)"
  assume ok: "\<forall>r \<in> set (rows df). \<forall>v d.
             cell_of (column_names df) r ''applicant_id'' = Some v
             \<longrightarrow> map_of (columns df) ''applicant_id'' = Some d
             \<longrightarrow> v \<noteq> Null \<longrightarrow> \<not> isl (astype_int_cell d v)"
  have "length (filter (\<lambda>n. n = ''applicant_id'') (map fst (columns df))) \<le> 1"
    using assms(1) by (simp add: key_column_once_def column_names_def)
  moreover have "\<And>r v d. r \<in> set ?kept \<Longrightarrow> cell_of (map fst (columns df)) r ''applicant_id'' = Some v
                   \<Longrightarrow> map_of (columns df) ''applicant_id'' = Some d
                   \<Longrightarrow> \<not> isl (astype_int_cell d v)"
    using ok by (auto simp: column_names_def)
  ultimately obtain rs where rs: "astype_int_rows (columns df) ''applicant_id'' ?kept = Inr rs"
    and len_rs: "length rs = length ?kept"
    using astype_int_rows_ok [of "''applicant_id''" "columns df" ?kept] by blast
  define df2 where "df2 = \<lparr>columns = map (\<lambda>(n, d). if n = ''applicant_id'' then (n, Int64) else (n, d))
                                        (columns df), rows = rs\<rparr>"
  have conv: "astype_int_column (dropna_subset df ''applicant_id'') ''applicant_id'' = Inr df2"
    using rs by (simp add: astype_int_column_def dropna_subset_def df2_def)
  have "len df2 = len (dropna_subset df ''applicant_id'')"
    using len_rs by (simp add: len_def df2_def dropna_subset_def)
  with len_dropna_subset [of df "''applicant_id''"] assms(2) have len2: "len df2 + k = len df"
    by simp
  then have dropped: "len df - len df2 = k"
    by simp
  have "clean_and_store F s df tn uploader
              = ((if 0 < k then [StWarningDropped k] else [])
                   @ fst (connect_and_store F s df2 tn uploader),
                 snd (connect_and_store F s df2 tn uploader))"
    using conv dropped by (auto simp: clean_and_store_def Let_def case_prod_unfold)
  with conv rs len2
  show "\<exists>df2. astype_int_column (dropna_subset df ''applicant_id'') ''applicant_id'' = Inr df2
                 \<and> astype_int_rows (columns df) ''applicant_id'' ?kept = Inr (rows df2)
                 \<and> len df2 + k = len df
                 \<and> clean_and_store F s df tn uploader
                    = ((if 0 < k then [StWarningDropped k] else [])
                         @ fst (connect_and_store F s df2 tn uploader),
                       snd (connect_and_store F s df2 tn uploader))"
    by (intro exI [of _ df2]) (simp add: df2_def)
next
  assume "\<exists>r \<in> set (rows df). \<exists>v d.
                cell_of (column_names df) r ''applicant_id'' = Some v
                \<and> map_of (columns df) ''applicant_id'' = Some d
                \<and> v \<noteq> Null \<and> isl (astype_int_cell d v)"
  then show "\<exists>msg. clean_and_store F s df tn uploader = ([StError msg], s)"
    using clean_and_store_key_not_coercible by blast
qed

theorem clean_and_store_drops_null_keys_witness:
  "clean_and_store no_faults empty_db risk_batch_lowercase ''risk_batch1'' ''Ann''
     = ([StWarningDropped 1, StSuccess 4 ''risk_batch1'' ''Ann''],
        snd (clean_and_store no_faults empty_db risk_batch_lowercase ''risk_batch1'' ''Ann''))
   \<and> (\<exists>msg. clean_and_store no_faults empty_db bad_key ''loans'' ''Ann'' = ([StError msg], empty_db))"
proof -
  have once: "key_column_once risk_batch_lowercase"
    by code_simp
  have ok: "\<forall>r \<in> set (rows risk_batch_lowercase). \<forall>v d.
              cell_of (column_names risk_batch_lowercase) r ''applicant_id'' = Some v
              \<longrightarrow> map_of (columns risk_batch_lowercase) ''applicant_id'' = Some d
              \<longrightarrow> v \<noteq> Null \<longrightarrow> \<not> isl (astype_int_cell d v)"
    by (simp add: risk_batch_lowercase_def risk_batch_def column_names_def cell_of_def)
  have k: "1 = length (filter (\<lambda>r. cell_of (column_names risk_batch_lowercase) r ''applicant_id''
                                    = Some Null) (rows risk_batch_lowercase))"
    by code_simp
  have stored: "\<And>df2. astype_int_column (dropna_subset risk_batch_lowercase ''applicant_id'')
                         ''applicant_id'' = Inr df2
                  \<Longrightarrow> fst (connect_and_store no_faults empty_db df2 ''risk_batch1'' ''Ann'')
                      = [StSuccess 4 ''risk_batch1'' ''Ann'']"
  proof -
    fix df2
    assume "astype_int_column (dropna_subset risk_batch_lowercase ''applicant_id'')
              ''applicant_id'' = Inr df2"
    moreover have "astype_int_column (dropna_subset risk_batch_lowercase ''applicant_id'')
              ''applicant_id''
            = Inr (projr (astype_int_column (dropna_subset risk_batch_lowercase ''applicant_id'')
                            ''applicant_id''))"
      by code_simp
    ultimately have "df2 = projr (astype_int_column (dropna_subset risk_batch_lowercase ''applicant_id'')
                            ''applicant_id'')"
      by simp
    moreover have "fst (connect_and_store no_faults empty_db
                     (projr (astype_int_column (dropna_subset risk_batch_lowercase ''applicant_id'')
                            ''applicant_id'')) ''risk_batch1'' ''Ann'')
                   = [StSuccess 4 ''risk_batch1'' ''Ann'']"
      by code_simp
    ultimately show "fst (connect_and_store no_faults empty_db df2 ''risk_batch1'' ''Ann'')
                      = [StSuccess 4 ''risk_batch1'' ''Ann'']"
      by simp
  qed
  have once': "key_column_once bad_key"
    by code_simp
  have k': "1 = length (filter (\<lambda>r. cell_of (column_names bad_key) r ''applicant_id''
                                    = Some Null) (rows bad_key))"
    by code_simp
  have bad: "\<exists>r \<in> set (rows bad_key). \<exists>v d.
          cell_of (column_names bad_key) r ''applicant_id'' = Some v
          \<and> map_of (columns bad_key) ''applicant_id'' = Some d
          \<and> v \<noteq> Null \<and> isl (astype_int_cell d v)"
  proof (intro bexI exI conjI)
    show "cell_of (column_names bad_key) [StrV ''x'', IntV 30] ''applicant_id'' = Some (StrV ''x'')"
      by code_simp
    show "map_of (columns bad_key) ''applicant_id'' = Some Object"
      by code_simp
    show "StrV ''x'' \<noteq> Null"
      by simp
    show "isl (astype_int_cell Object (StrV ''x''))"
      by code_simp
    show "[StrV ''x'', IntV 30] \<in> set (rows bad_key)"
      by code_simp
  qed
  from clean_and_store_drops_null_keys [OF once k, of no_faults empty_db "''risk_batch1''" "''Ann''"]
    ok stored
  have "clean_and_store no_faults empty_db risk_batch_lowercase ''risk_batch1'' ''Ann''
     = ([StWarningDropped 1, StSuccess 4 ''risk_batch1'' ''Ann''],
        snd (clean_and_store no_faults empty_db risk_batch_lowercase ''risk_batch1'' ''Ann''))"
    by auto
  moreover from clean_and_store_drops_null_keys [OF once' k', of no_faults empty_db "''loans''" "''Ann''"]
    bad
  have "\<exists>msg. clean_and_store no_faults empty_db bad_key ''loans'' ''Ann'' = ([StError msg], empty_db)"
    by blast
  ultimately show ?thesis
    by blast
qed

text \<open>
  C5 as stated fails: \<open>bad_key\<close> has one null in its key column, and its other key is
  no integer. The conversion comes before the number of dropped rows is computed, so the
  upload ends with the error message alone and reports no dropped row.
\<close>

theorem dropped_rows_not_reported_when_key_not_coercible:
  "column_cells bad_key ''applicant_id'' = [Some (StrV ''x''), Some Null]
   \<and> length (fst (upload_to_mysql no_faults empty_db bad_key ''loans'' ''Ann'')) = 1
   \<and> StWarningDropped 1 \<notin> set (fst (upload_to_mysql no_faults empty_db bad_key ''loans'' ''Ann''))"
  by code_simp

section \<open>Reconciling the columns with an existing table\<close>

lemma map_fst_retype:
  "map fst (map (\<lambda>(n, d). if n = c then (n, Int64) else (n, d)) cols) = map fst cols"
  by (induction cols) auto

lemma column_names_astype_int_column:
  "astype_int_column df c = Inr df2 \<Longrightarrow> column_names df2 = column_names df"
  by (cases "astype_int_rows (columns df) c (rows df)")
     (auto simp: astype_int_column_def column_names_def map_fst_retype)




lemma validate_and_append_data_existing:
  assumes "tables s tn = Some t"
    and "tcolumns t \<noteq> []"
    and "\<not> F OpenCursor" and "\<not> F CheckTable" and "\<not> F Describe"
  shows "validate_and_append_data F s df tn =
           (let columns_to_keep = filter (\<lambda>c. c \<in> set (map fst (tcolumns t))) (column_names df)
            in if columns_to_keep = [] then (Inr (Inl no_matching_columns), s)
               else (Inr (Inr (select_columns df columns_to_keep)), s))"
  using assms by (simp add: validate_and_append_data_def get_table_columns_def Let_def)

lemma tcolumns_insert_ignore [simp]: "tcolumns (insert_ignore t rs) = tcolumns t"
  by (induction rs arbitrary: t) auto


text \<open>The three ways an upload can go: rejected before the connection, no connection or
  no registry, or on to the reconciliation with the registry ensured.\<close>

lemma clean_and_store_cases:
  obtains (rejected) msg where "clean_and_store F s df tn uploader = ([StError msg], s)"
  | (no_connection) df2 where
      "astype_int_column (dropna_subset df ''applicant_id'') ''applicant_id'' = Inr df2"
      "F Connect \<or> F EnsureRegistry"
      "clean_and_store F s df tn uploader
         = ((if 0 < len df - len df2 then [StWarningDropped (len df - len df2)] else [])
              @ [StError unable_to_connect], s)"
  | (stored) df2 where
      "astype_int_column (dropna_subset df ''applicant_id'') ''applicant_id'' = Inr df2"
      "\<not> F Connect" "\<not> F EnsureRegistry"
      "clean_and_store F s df tn uploader
         = ((if 0 < len df - len df2 then [StWarningDropped (len df - len df2)] else [])
              @ fst (reconcile_and_store F (s\<lparr>registry := Some (registry_entries s)\<rparr>) df2 tn uploader),
            snd (reconcile_and_store F (s\<lparr>registry := Some (registry_entries s)\<rparr>) df2 tn uploader))"
proof (cases "astype_int_column (dropna_subset df ''applicant_id'') ''applicant_id''")
  case (Inl e)
  then have "clean_and_store F s df tn uploader = ([StError (sanitize_error_message e)], s)"
    by (simp add: clean_and_store_def on_exception_def Let_def)
  then show ?thesis
    by (rule rejected)
next
  case (Inr df2)
  show ?thesis
  proof (cases "F Connect \<or> F EnsureRegistry")
    case True
    with Inr have "clean_and_store F s df tn uploader
       = ((if 0 < len df - len df2 then [StWarningDropped (len df - len df2)] else [])
            @ [StError unable_to_connect], s)"
      by (auto simp: clean_and_store_def connect_and_store_def get_connection_def
          ensure_registry_def on_exception_def Let_def)
    with Inr True show ?thesis
      by (rule no_connection)
  next
    case no_fault: False
    with Inr have "clean_and_store F s df tn uploader
       = ((if 0 < len df - len df2 then [StWarningDropped (len df - len df2)] else [])
            @ fst (reconcile_and_store F (s\<lparr>registry := Some (registry_entries s)\<rparr>) df2 tn uploader),
          snd (reconcile_and_store F (s\<lparr>registry := Some (registry_entries s)\<rparr>) df2 tn uploader))"
      by (auto simp: clean_and_store_def connect_and_store_def get_connection_def
          ensure_registry_def Let_def case_prod_unfold)
    with Inr no_fault show ?thesis
      using stored by blast
  qed
qed

lemma upload_to_mysql_cases:
  obtains (rejected) msg where "upload_to_mysql F s df tn uploader = ([StError msg], s)"
  | (no_connection) df2 where
      "astype_int_column (dropna_subset df ''applicant_id'') ''applicant_id'' = Inr df2"
      "F Connect \<or> F EnsureRegistry"
      "upload_to_mysql F s df tn uploader
         = ((if 0 < len df - len df2 then [StWarningDropped (len df - len df2)] else [])
              @ [StError unable_to_connect], s)"
  | (stored) df2 where
      "astype_int_column (dropna_subset df ''applicant_id'') ''applicant_id'' = Inr df2"
      "\<not> F Connect" "\<not> F EnsureRegistry"
      "upload_to_mysql F s df tn uploader
         = ((if 0 < len df - len df2 then [StWarningDropped (len df - len df2)] else [])
              @ fst (reconcile_and_store F (s\<lparr>registry := Some (registry_entries s)\<rparr>) df2 tn uploader),
            snd (reconcile_and_store F (s\<lparr>registry := Some (registry_entries s)\<rparr>) df2 tn uploader))"
proof -
  from upload_to_mysql_guards [of F s df tn uploader] show ?thesis
  proof
    assume "\<exists>msg. upload_to_mysql F s df tn uploader = ([StError msg], s)"
    then show ?thesis
      using that(1) by blast
  next
    assume eq: "upload_to_mysql F s df tn uploader = clean_and_store F s df tn uploader"
    show ?thesis
    proof (cases rule: clean_and_store_cases [of F s df tn uploader])
      case (rejected msg)
      with eq show ?thesis
        using that(1) by simp
    next
      case (no_connection df2)
      with eq show ?thesis
        using that(2) by simp
    next
      case (stored df2)
      with eq show ?thesis
        using that(3) by simp
    qed
  qed
qed

text \<open>
  C3. The table exists, with at least one column, and the dataframe shares no column name
  with it; the statements that look at the table do not fail. Then
  \<open>validate_and_append_data\<close> answers with the message about no matching columns and the
  page shows it as its one error, and the database after lines 485 to 500 is the database
  before them. For the whole upload, which ensures the registry first: every table is
  what it was and the registry has the entries it had.
\<close>

theorem no_matching_columns_no_write:
  assumes "tables s tn = Some t"
    and "tcolumns t \<noteq> []"
    and "set (column_names df) \<inter> set (map fst (tcolumns t)) = {}"
    and "\<not> F OpenCursor" and "\<not> F CheckTable" and "\<not> F Describe"
    and "target_name tn"
  shows "validate_and_append_data F s df tn = (Inr (Inl no_matching_columns), s)
         \<and> reconcile_and_store F s df tn uploader = ([StError no_matching_columns], s)
         \<and> tables (snd (upload_to_mysql F s df tn uploader)) = tables s
         \<and> registry_entries (snd (upload_to_mysql F s df tn uploader)) = registry_entries s"
proof -
  have v: "validate_and_append_data F s' df' tn = (Inr (Inl no_matching_columns), s')"
    if "column_names df' = column_names df" and "tables s' tn = Some t" for s' df'
  proof -
    have "filter (\<lambda>c. c \<in> set (map fst (tcolumns t))) (column_names df') = []"
      using assms(3) that(1) by (auto simp: filter_empty_conv)
    with validate_and_append_data_existing [OF that(2) assms(2,4,5,6), of df'] show ?thesis
      by (simp add: Let_def)
  qed
  have r: "reconcile_and_store F s' df' tn uploader = ([StError no_matching_columns], s')"
    if "column_names df' = column_names df" and "tables s' tn = Some t" for s' df'
    using v [OF that] by (simp add: reconcile_and_store_def)
  have "tables (snd (upload_to_mysql F s df tn uploader)) = tables s
         \<and> registry_entries (snd (upload_to_mysql F s df tn uploader)) = registry_entries s"
  proof (cases rule: upload_to_mysql_cases [of F s df tn uploader])
    case (rejected msg)
    then show ?thesis by simp
  next
    case (no_connection df2)
    then show ?thesis by simp
  next
    case (stored df2)
    have "column_names df2 = column_names df"
      using column_names_astype_int_column [OF stored(1)] by simp
    moreover have "tables (s\<lparr>registry := Some (registry_entries s)\<rparr>) tn = Some t"
      using assms(1) by simp
    ultimately have "reconcile_and_store F (s\<lparr>registry := Some (registry_entries s)\<rparr>) df2 tn uploader
                       = ([StError no_matching_columns], s\<lparr>registry := Some (registry_entries s)\<rparr>)"
      by (rule r)
    with stored(4) show ?thesis
      by (simp add: registry_entries_def)
  qed
  with v [OF refl assms(1)] r [OF refl assms(1)] show ?thesis
    by simp
qed

theorem no_matching_columns_no_write_witness:
  "reconcile_and_store no_faults foreign_db one_row ''branches'' ''Ann''
     = ([StError no_matching_columns], foreign_db)
   \<and> tables (snd (upload_to_mysql no_faults foreign_db one_row ''branches'' ''Ann'')) = tables foreign_db
   \<and> registry_entries (snd (upload_to_mysql no_faults foreign_db one_row ''branches'' ''Ann'')) = []"
proof -
  have t: "tables foreign_db ''branches'' = Some \<lparr>tcolumns = [(''branch'', ''TEXT'', False)], trows = []\<rparr>"
    by (simp add: foreign_db_def)
  have c: "tcolumns \<lparr>tcolumns = [(''branch'', ''TEXT'', False)], trows = []\<rparr> \<noteq> []"
    by simp
  have d: "set (column_names one_row)
             \<inter> set (map fst (tcolumns \<lparr>tcolumns = [(''branch'', ''TEXT'', False)], trows = []\<rparr>)) = {}"
    by (simp add: one_row_def column_names_def)
  have f: "\<not> no_faults OpenCursor" "\<not> no_faults CheckTable" "\<not> no_faults Describe"
    by (simp_all add: no_faults_def)
  have e: "registry_entries foreign_db = []"
    by code_simp
  have n: "target_name ''branches''"
    by code_simp
  from no_matching_columns_no_write [OF t c d f n, of "''Ann''"]
  have "reconcile_and_store no_faults foreign_db one_row ''branches'' ''Ann''
          = ([StError no_matching_columns], foreign_db)"
    and "tables (snd (upload_to_mysql no_faults foreign_db one_row ''branches'' ''Ann''))
          = tables foreign_db"
    and "registry_entries (snd (upload_to_mysql no_faults foreign_db one_row ''branches'' ''Ann''))
          = registry_entries foreign_db"
    by blast+
  with e show ?thesis
    by metis
qed



section \<open>When the registry gets its entry\<close>









section \<open>Uploading the same file again\<close>

lemma primary_key_insert_ignore [simp]: "primary_key (insert_ignore t rs) = primary_key t"
  by (simp add: primary_key_def)

lemma key_of_insert_ignore [simp]: "key_of (insert_ignore t rs) r = key_of t r"
  by (simp add: key_of_def)



















end
